theory Spec2Isabelle
  imports Complex_Main "HOL-Library.Sublist" "HOL-Library.Multiset"
begin


section \<open>Strings\<close>

text \<open>
  JavaScript strings are modelled as \<open>string\<close>; a \<open>char\<close> stands for one code unit
  below 256.  \<open>isWhiteSpace\<close> holds of the code units that \<open>String.prototype.trim\<close> strips in
  that range: TAB, LF, VT, FF, CR, SPACE and NBSP.
\<close>

definition isWhiteSpace :: "char \<Rightarrow> bool" where
  "isWhiteSpace c = (of_char c \<in> {9, 10, 11, 12, 13, 32, 160 :: nat})"

definition trim :: "string \<Rightarrow> string" where
  "trim s = rev (dropWhile isWhiteSpace (rev (dropWhile isWhiteSpace s)))"

section \<open>Domain model (types.ts)\<close>

text \<open>
  \<open>Record<string, T>\<close> is a finite map from keys to values.  \<open>Priority\<close> is a JavaScript
  number at run time and is modelled as \<open>int\<close>.
\<close>

record Todo =
  todo_id :: string
  todo_text :: string
  todo_priority :: int
  todo_completed :: bool
  todo_createdAt :: string
  todo_subTaskIds :: "string list"

record SubTask =
  sub_id :: string
  sub_parentId :: string
  sub_text :: string
  sub_completed :: bool
  sub_createdAt :: string
  sub_source :: string

record AppSettings =
  openaiApiKey :: string
  model :: string

record AppState =
  todos :: "string \<rightharpoonup> Todo"
  subTasks :: "string \<rightharpoonup> SubTask"
  todoOrder :: "string list"
  collapsedTodoIds :: "string list"
  settings :: AppSettings
  schemaVersion :: int

definition APP_SCHEMA_VERSION :: int where
  "APP_SCHEMA_VERSION = 1"

definition DEFAULT_MODEL :: string where
  "DEFAULT_MODEL = ''gpt-4.1-mini''"

section \<open>Array helpers\<close>

text \<open>\<open>Array.prototype.indexOf\<close>: the first index of the element, \<open>-1\<close> when it is absent.\<close>

fun indexOf :: "'a list \<Rightarrow> 'a \<Rightarrow> int" where
  "indexOf [] x = -1"
| "indexOf (y # ys) x = (if y = x then 0 else (let r = indexOf ys x in if r < 0 then -1 else r + 1))"


text \<open>
  \<open>xs.splice(i, 1)\<close> and \<open>xs.splice(i, 0, x)\<close> for \<open>0 \<le> i\<close>; a start beyond the end is
  clamped to the length, as \<open>take\<close> and \<open>drop\<close> do.
\<close>

definition spliceRemove :: "nat \<Rightarrow> 'a list \<Rightarrow> 'a list" where
  "spliceRemove i xs = take i xs @ drop (Suc i) xs"

definition spliceInsert :: "nat \<Rightarrow> 'a \<Rightarrow> 'a list \<Rightarrow> 'a list" where
  "spliceInsert i x xs = take i xs @ x # drop i xs"

section \<open>State engine (hooks/useAppState.ts)\<close>

text \<open>
  Every operation is the updater that the hook hands to \<open>setState\<close>, together with the
  guards that run before \<open>setState\<close> is called: a function from the previous state to the
  next one.  The values of \<open>newId()\<close> and \<open>new Date().toISOString()\<close> are parameters.
\<close>

definition createTodo :: "string \<Rightarrow> string \<Rightarrow> string \<Rightarrow> AppState \<Rightarrow> AppState" where
  "createTodo newId createdAt text prev =
     prev\<lparr>todos := (todos prev)(newId \<mapsto>
              \<lparr>todo_id = newId, todo_text = text, todo_priority = 0, todo_completed = False,
               todo_createdAt = createdAt, todo_subTaskIds = []\<rparr>),
          todoOrder := newId # todoOrder prev\<rparr>"

definition completeSubTask :: "string \<Rightarrow> (string \<rightharpoonup> SubTask) \<Rightarrow> (string \<rightharpoonup> SubTask)" where
  "completeSubTask subTaskId nextSubTasks =
     (case nextSubTasks subTaskId of
        None \<Rightarrow> nextSubTasks
      | Some subTask \<Rightarrow>
          if sub_completed subTask then nextSubTasks
          else nextSubTasks(subTaskId \<mapsto> subTask\<lparr>sub_completed := True\<rparr>))"

definition isUnchecked :: "AppState \<Rightarrow> string \<Rightarrow> bool" where
  "isUnchecked prev i = (case todos prev i of None \<Rightarrow> False | Some item \<Rightarrow> \<not> todo_completed item)"

definition isChecked :: "AppState \<Rightarrow> string \<Rightarrow> bool" where
  "isChecked prev i = (case todos prev i of None \<Rightarrow> False | Some item \<Rightarrow> todo_completed item)"

definition toggleTodoCompleted :: "string \<Rightarrow> AppState \<Rightarrow> AppState" where
  "toggleTodoCompleted todoId prev =
     (case todos prev todoId of
        None \<Rightarrow> prev
      | Some todo \<Rightarrow>
          let nextCompleted = \<not> todo_completed todo;
              withoutTarget = filter (\<lambda>i. i \<noteq> todoId) (todoOrder prev);
              uncheckedIds = filter (isUnchecked prev) withoutTarget;
              checkedIds = filter (isChecked prev) withoutTarget;
              nextTodoOrder =
                (if nextCompleted then uncheckedIds @ [todoId] @ checkedIds else todoOrder prev);
              nextSubTasks =
                (if nextCompleted \<and> length (todo_subTaskIds todo) > 0
                 then fold completeSubTask (todo_subTaskIds todo) (subTasks prev)
                 else subTasks prev)
          in prev\<lparr>todos := (todos prev)(todoId \<mapsto> todo\<lparr>todo_completed := nextCompleted\<rparr>),
                  subTasks := nextSubTasks,
                  todoOrder := nextTodoOrder\<rparr>)"


text \<open>
  \<open>addGeneratedSubTasks\<close>: the \<open>k\<close>-th item of the loop gets the id \<open>newId k\<close> and the time stamp
  \<open>createdAt k\<close>; an item is its \<open>text\<close>.
\<close>

definition newSubTask :: "string \<Rightarrow> (nat \<Rightarrow> string) \<Rightarrow> (nat \<Rightarrow> string) \<Rightarrow> string \<times> nat \<Rightarrow> SubTask" where
  "newSubTask todoId newId createdAt item =
     (case item of (text, k) \<Rightarrow>
        \<lparr>sub_id = newId k, sub_parentId = todoId, sub_text = trim text, sub_completed = False,
         sub_createdAt = createdAt k, sub_source = ''ai''\<rparr>)"












text \<open>\<open>moveTodoToIndex\<close>: the index is an integral JavaScript number.\<close>

definition moveTodoToIndex :: "string \<Rightarrow> int \<Rightarrow> AppState \<Rightarrow> AppState" where
  "moveTodoToIndex draggedTodoId nextIndex prev =
     (if nextIndex < 0 then prev
      else
        let fromIndex = indexOf (todoOrder prev) draggedTodoId in
        if fromIndex < 0 \<or> nextIndex > int (length (todoOrder prev)) then prev
        else
          let nextOrder = spliceRemove (nat fromIndex) (todoOrder prev);
              adjustedIndex = (if fromIndex < nextIndex then nextIndex - 1 else nextIndex)
          in prev\<lparr>todoOrder := spliceInsert (nat adjustedIndex) draggedTodoId nextOrder\<rparr>)"



section \<open>Specification vocabulary for the state engine\<close>

text \<open>
  \<open>firstOccurrences xs\<close> keeps, of every element of \<open>xs\<close>, its first occurrence only.
\<close>

primrec firstOccurrences :: "'a list \<Rightarrow> 'a list" where
  "firstOccurrences [] = []"
| "firstOccurrences (x # xs) = x # filter (\<lambda>y. y \<noteq> x) (firstOccurrences xs)"


text \<open>
  The invariants of the data model.  \<open>orderInvariant\<close>: \<open>todoOrder\<close> lists every key of the
  todo mapping exactly once and nothing else.  \<open>collapsedInvariant\<close>: a collapsed id is a
  key of the todo mapping.  \<open>subTaskIdsInvariant\<close>: an entry of a todo's \<open>subTaskIds\<close> is a
  key of the sub-task mapping, and that sub-task's \<open>parentId\<close> is the todo.
  \<open>noOrphans\<close>: a sub-task's parent is in the todo mapping and lists it.
  \<open>keyedById\<close>: the todo mapping is a mapping from id to todo, each todo is stored under
  its own \<open>id\<close>.
\<close>

definition orderInvariant :: "AppState \<Rightarrow> bool" where
  "orderInvariant s = (distinct (todoOrder s) \<and> set (todoOrder s) = dom (todos s))"

definition collapsedInvariant :: "AppState \<Rightarrow> bool" where
  "collapsedInvariant s = (set (collapsedTodoIds s) \<subseteq> dom (todos s))"

definition subTaskIdsInvariant :: "AppState \<Rightarrow> bool" where
  "subTaskIdsInvariant s =
     (\<forall>k todo subTaskId. todos s k = Some todo \<and> subTaskId \<in> set (todo_subTaskIds todo) \<longrightarrow>
        (\<exists>subTask. subTasks s subTaskId = Some subTask \<and> sub_parentId subTask = k))"

definition noOrphans :: "AppState \<Rightarrow> bool" where
  "noOrphans s =
     (\<forall>subTaskId subTask. subTasks s subTaskId = Some subTask \<longrightarrow>
        (\<exists>todo. todos s (sub_parentId subTask) = Some todo \<and> subTaskId \<in> set (todo_subTaskIds todo)))"

definition keyedById :: "AppState \<Rightarrow> bool" where
  "keyedById s = (\<forall>k todo. todos s k = Some todo \<longrightarrow> todo_id todo = k)"


text \<open>
  \<open>listedInvariants\<close> are the invariants without \<open>keyedById\<close>: there a todo is identified by
  the key it is stored under.  \<open>listedInvariantsById\<close> are the same invariants with a todo
  identified by its \<open>id\<close> field: a sub-task's \<open>parentId\<close> is the \<open>id\<close> of the todo that lists it.
  The two agree on the states that satisfy \<open>keyedById\<close>.
\<close>

definition listedInvariants :: "AppState \<Rightarrow> bool" where
  "listedInvariants s =
     (orderInvariant s \<and> collapsedInvariant s \<and> subTaskIdsInvariant s \<and> noOrphans s)"

definition subTaskIdsInvariantById :: "AppState \<Rightarrow> bool" where
  "subTaskIdsInvariantById s =
     (\<forall>k todo subTaskId. todos s k = Some todo \<and> subTaskId \<in> set (todo_subTaskIds todo) \<longrightarrow>
        (\<exists>subTask. subTasks s subTaskId = Some subTask \<and> sub_parentId subTask = todo_id todo))"

definition noOrphansById :: "AppState \<Rightarrow> bool" where
  "noOrphansById s =
     (\<forall>subTaskId subTask. subTasks s subTaskId = Some subTask \<longrightarrow>
        (\<exists>k todo. todos s k = Some todo \<and> todo_id todo = sub_parentId subTask
                  \<and> subTaskId \<in> set (todo_subTaskIds todo)))"

definition listedInvariantsById :: "AppState \<Rightarrow> bool" where
  "listedInvariantsById s =
     (orderInvariant s \<and> collapsedInvariant s \<and> subTaskIdsInvariantById s \<and> noOrphansById s)"

section \<open>The initial state (storage.ts)\<close>

definition createInitialState :: AppState where
  "createInitialState =
     \<lparr>todos = Map.empty, subTasks = Map.empty, todoOrder = [], collapsedTodoIds = [],
      settings = \<lparr>openaiApiKey = [], model = DEFAULT_MODEL\<rparr>,
      schemaVersion = APP_SCHEMA_VERSION\<rparr>"

section \<open>Example states\<close>



definition stateABC :: AppState where
  "stateABC =
     createTodo ''A'' ''2024-01-01T00:00:03.000Z'' ''write report''
       (createTodo ''B'' ''2024-01-01T00:00:02.000Z'' ''buy milk''
          (toggleTodoCompleted ''C''
             (createTodo ''C'' ''2024-01-01T00:00:01.000Z'' ''call mom'' createInitialState)))"








section \<open>JavaScript values\<close>

text \<open>
  A value of type \<open>unknown\<close> that comes out of \<open>JSON.parse\<close> or of a property access:
  \<open>undefined\<close>, \<open>null\<close>, a boolean, a number, a string, an array or a plain object (the list
  of its entries, the keys distinct).  A number is \<open>NaN\<close>, an infinity, or a finite value,
  which is a rational; \<open>-0\<close> and \<open>0\<close> are the same value here.
\<close>

datatype jsnum = NaN | PosInfinity | NegInfinity | Finite rat

datatype jsval =
    JUndefined
  | JNull
  | JBool bool
  | JNum jsnum
  | JStr string
  | JArr "jsval list"
  | JObj "(string \<times> jsval) list"

text \<open>A thrown exception: an \<open>AppError\<close> with its code, or any other exception.\<close>

datatype AppErrorCode = MISSING_API_KEY | OPENAI_API_ERROR | INVALID_JSON

datatype failure = AppError AppErrorCode | TypeError | NetworkError

subsection \<open>Binary64 rounding\<close>

text \<open>
  \<open>roundToDouble q\<close> is the double nearest to the rational \<open>q\<close>, ties to even, with
  subnormals and overflow to an infinity.
\<close>

definition pow2 :: "int \<Rightarrow> rat" where
  "pow2 e = (if 0 \<le> e then 2 ^ nat e else 1 / 2 ^ nat (- e))"

function bitLength :: "int \<Rightarrow> int" where
  "bitLength n = (if n \<le> 0 then 0 else 1 + bitLength (n div 2))"
  by pat_completeness auto
termination
  by (relation "measure nat") auto

declare bitLength.simps [simp del]

definition binaryExponent :: "rat \<Rightarrow> int" where
  "binaryExponent a =
     (case quotient_of a of (p, q) \<Rightarrow>
        let e0 = bitLength p - bitLength q
        in if pow2 e0 \<le> a then e0 else e0 - 1)"

definition roundHalfEven :: "rat \<Rightarrow> int" where
  "roundHalfEven m =
     (let f = \<lfloor>m\<rfloor>; d = m - of_int f
      in if d < 1 / 2 then f else if 1 / 2 < d then f + 1 else if even f then f else f + 1)"

definition roundToDouble :: "rat \<Rightarrow> jsnum" where
  "roundToDouble q =
     (if q = 0 then Finite 0
      else
        let a = \<bar>q\<bar>;
            e = max (binaryExponent a) (- 1022);
            ulp = pow2 (e - 52);
            r = of_int (roundHalfEven (a / ulp)) * ulp
        in if pow2 1024 \<le> r then (if 0 < q then PosInfinity else NegInfinity)
           else Finite (if 0 < q then r else - r))"

subsection \<open>StringToNumber\<close>

text \<open>
  The conversion of a string to a number: white space is trimmed, the empty string is \<open>0\<close>, a
  hexadecimal, octal or binary literal is its value, \<open>Infinity\<close> with an optional sign is an
  infinity, a decimal literal with optional sign, fraction and exponent is its value, and
  everything else is \<open>NaN\<close>.
\<close>

definition digitValue :: "char \<Rightarrow> int option" where
  "digitValue c =
     (let n = (of_char c :: int) in
      if 48 \<le> n \<and> n \<le> 57 then Some (n - 48)
      else if 97 \<le> n \<and> n \<le> 102 then Some (n - 87)
      else if 65 \<le> n \<and> n \<le> 70 then Some (n - 55)
      else None)"

definition isDigitOf :: "int \<Rightarrow> char \<Rightarrow> bool" where
  "isDigitOf base c = (case digitValue c of None \<Rightarrow> False | Some d \<Rightarrow> d < base)"

definition digitsValue :: "int \<Rightarrow> string \<Rightarrow> int" where
  "digitsValue base ds = foldl (\<lambda>acc c. acc * base + (case digitValue c of None \<Rightarrow> 0 | Some d \<Rightarrow> d)) 0 ds"

definition radixLiteral :: "int \<Rightarrow> string \<Rightarrow> jsnum" where
  "radixLiteral base ds =
     (if ds \<noteq> [] \<and> list_all (isDigitOf base) ds then roundToDouble (of_int (digitsValue base ds))
      else NaN)"

text \<open>
  \<open>decimalLiteral\<close> reads \<open>digits [. digits] [exponent]\<close> or \<open>. digits [exponent]\<close>; the result
  is the exact value, or \<open>None\<close> when the string is not of that form.
\<close>

definition exponentPart :: "string \<Rightarrow> int option" where
  "exponentPart s =
     (case s of
        [] \<Rightarrow> Some 0
      | c # rest \<Rightarrow>
          if c = CHR ''e'' \<or> c = CHR ''E'' then
            (case rest of
               [] \<Rightarrow> None
             | sg # ds \<Rightarrow>
                 if sg = CHR ''+'' \<or> sg = CHR ''-'' then
                   (if ds \<noteq> [] \<and> list_all (isDigitOf 10) ds
                    then Some ((if sg = CHR ''-'' then - 1 else 1) * digitsValue 10 ds)
                    else None)
                 else if list_all (isDigitOf 10) rest then Some (digitsValue 10 rest)
                 else None)
          else None)"

definition pow10 :: "int \<Rightarrow> rat" where
  "pow10 e = (if 0 \<le> e then 10 ^ nat e else 1 / 10 ^ nat (- e))"

definition decimalLiteral :: "string \<Rightarrow> rat option" where
  "decimalLiteral s =
     (let intDigits = takeWhile (isDigitOf 10) s;
          afterInt = dropWhile (isDigitOf 10) s;
          hasDot = (afterInt \<noteq> [] \<and> hd afterInt = CHR ''.'');
          fracDigits = (if hasDot then takeWhile (isDigitOf 10) (tl afterInt) else []);
          afterFrac = (if hasDot then dropWhile (isDigitOf 10) (tl afterInt) else afterInt)
      in if intDigits = [] \<and> fracDigits = [] then None
         else case exponentPart afterFrac of
                None \<Rightarrow> None
              | Some e \<Rightarrow>
                  Some (of_int (digitsValue 10 (intDigits @ fracDigits))
                        * pow10 (e - int (length fracDigits))))"

definition signedDecimal :: "string \<Rightarrow> jsnum" where
  "signedDecimal s =
     (let negative = (s \<noteq> [] \<and> hd s = CHR ''-'');
          body = (if s \<noteq> [] \<and> (hd s = CHR ''+'' \<or> hd s = CHR ''-'') then tl s else s)
      in if body = ''Infinity'' then (if negative then NegInfinity else PosInfinity)
         else case decimalLiteral body of
                None \<Rightarrow> NaN
              | Some q \<Rightarrow> roundToDouble (if negative then - q else q))"

definition StringToNumber :: "string \<Rightarrow> jsnum" where
  "StringToNumber s =
     (let t = trim s in
      if t = [] then Finite 0
      else if take 2 t = ''0x'' \<or> take 2 t = ''0X'' then radixLiteral 16 (drop 2 t)
      else if take 2 t = ''0o'' \<or> take 2 t = ''0O'' then radixLiteral 8 (drop 2 t)
      else if take 2 t = ''0b'' \<or> take 2 t = ''0B'' then radixLiteral 2 (drop 2 t)
      else signedDecimal t)"

subsection \<open>Number, Boolean, Number.isInteger, typeof\<close>

text \<open>
  \<open>Number(value)\<close>.  An array converts through its string form: \<open>[]\<close> has the string \<open>''''\<close>,
  \<open>[x]\<close> has the string of \<open>x\<close> (empty for \<open>null\<close> and \<open>undefined\<close>; the string of a number
  converts back to that number), and the string of a longer array holds a comma, which no
  numeric literal does.  A plain object has the string \<open>[object Object]\<close>.
\<close>

fun js_Number :: "jsval \<Rightarrow> jsnum" where
  "js_Number JUndefined = NaN"
| "js_Number JNull = Finite 0"
| "js_Number (JBool b) = Finite (if b then 1 else 0)"
| "js_Number (JNum n) = n"
| "js_Number (JStr s) = StringToNumber s"
| "js_Number (JObj kvs) = NaN"
| "js_Number (JArr []) = Finite 0"
| "js_Number (JArr [JUndefined]) = Finite 0"
| "js_Number (JArr [JNull]) = Finite 0"
| "js_Number (JArr [JBool b]) = NaN"
| "js_Number (JArr [JNum n]) = n"
| "js_Number (JArr [JStr s]) = StringToNumber s"
| "js_Number (JArr [JObj kvs]) = NaN"
| "js_Number (JArr [JArr xs]) = js_Number (JArr xs)"
| "js_Number (JArr (x # y # zs)) = NaN"

definition Number_isInteger :: "jsnum \<Rightarrow> bool" where
  "Number_isInteger n = (case n of Finite q \<Rightarrow> of_int \<lfloor>q\<rfloor> = q | _ \<Rightarrow> False)"

text \<open>\<open>a <= b\<close> and \<open>a >= b\<close> on numbers: false when an operand is \<open>NaN\<close>.\<close>

fun num_le :: "jsnum \<Rightarrow> jsnum \<Rightarrow> bool" where
  "num_le NaN _ = False"
| "num_le _ NaN = False"
| "num_le NegInfinity _ = True"
| "num_le _ PosInfinity = True"
| "num_le PosInfinity _ = False"
| "num_le _ NegInfinity = False"
| "num_le (Finite a) (Finite b) = (a \<le> b)"

definition num_ge :: "jsnum \<Rightarrow> jsnum \<Rightarrow> bool" where
  "num_ge a b = num_le b a"

text \<open>The integer that an integral number is (\<open>0\<close> for the others, which no caller passes).\<close>

definition integerOf :: "jsnum \<Rightarrow> int" where
  "integerOf n = (case n of Finite q \<Rightarrow> \<lfloor>q\<rfloor> | _ \<Rightarrow> 0)"

definition js_isNaN :: "jsval \<Rightarrow> bool" where
  "js_isNaN v = (js_Number v = NaN)"

fun js_Boolean :: "jsval \<Rightarrow> bool" where
  "js_Boolean JUndefined = False"
| "js_Boolean JNull = False"
| "js_Boolean (JBool b) = b"
| "js_Boolean (JNum n) = (n \<noteq> NaN \<and> n \<noteq> Finite 0)"
| "js_Boolean (JStr s) = (s \<noteq> [])"
| "js_Boolean (JArr xs) = True"
| "js_Boolean (JObj kvs) = True"

text \<open>\<open>typeof v === "object"\<close> holds of \<open>null\<close>, arrays and objects.\<close>

fun typeofObject :: "jsval \<Rightarrow> bool" where
  "typeofObject JNull = True"
| "typeofObject (JArr xs) = True"
| "typeofObject (JObj kvs) = True"
| "typeofObject _ = False"

fun typeofString :: "jsval \<Rightarrow> bool" where
  "typeofString (JStr s) = True"
| "typeofString _ = False"

fun Array_isArray :: "jsval \<Rightarrow> bool" where
  "Array_isArray (JArr xs) = True"
| "Array_isArray _ = False"

text \<open>
  \<open>v.k\<close> for a value that is neither \<open>null\<close> nor \<open>undefined\<close>, and a property name \<open>k\<close> that
  no prototype defines: the own property of an object, \<open>undefined\<close> otherwise.
  \<open>getOrThrow\<close> is the same access on any value: it throws a \<open>TypeError\<close> on \<open>null\<close> and
  \<open>undefined\<close>.  \<open>hasProperty\<close> is \<open>k in v\<close> for an object or array \<open>v\<close>.
\<close>

fun getProp :: "jsval \<Rightarrow> string \<Rightarrow> jsval" where
  "getProp (JObj kvs) k = (case map_of kvs k of None \<Rightarrow> JUndefined | Some v \<Rightarrow> v)"
| "getProp _ k = JUndefined"

fun getOrThrow :: "jsval \<Rightarrow> string \<Rightarrow> failure + jsval" where
  "getOrThrow JUndefined k = Inl TypeError"
| "getOrThrow JNull k = Inl TypeError"
| "getOrThrow v k = Inr (getProp v k)"

fun hasProperty :: "string \<Rightarrow> jsval \<Rightarrow> bool" where
  "hasProperty k (JObj kvs) = (k \<in> fst ` set kvs)"
| "hasProperty k _ = False"

text \<open>The strings of an array, as \<open>xs.filter((x) => typeof x === "string")\<close> keeps them.\<close>

fun stringsOf :: "jsval list \<Rightarrow> string list" where
  "stringsOf [] = []"
| "stringsOf (JStr s # xs) = s # stringsOf xs"
| "stringsOf (_ # xs) = stringsOf xs"


section \<open>Priority clamps (types.ts, openai.ts)\<close>

definition clampPriority :: "jsval \<Rightarrow> int" where
  "clampPriority value =
     (let parsed = js_Number value in
      if \<not> Number_isInteger parsed then 0
      else if num_le parsed (Finite 0) then 0
      else if num_le parsed (Finite 1) then 1
      else if num_ge parsed (Finite 5) then 5
      else integerOf parsed)"

definition clampRankPriority :: "jsval \<Rightarrow> int" where
  "clampRankPriority value =
     (let parsed = js_Number value in
      if \<not> Number_isInteger parsed then 3
      else if num_le parsed (Finite 1) then 1
      else if num_ge parsed (Finite 5) then 5
      else integerOf parsed)"


section \<open>Persistence adapter (storage.ts)\<close>

text \<open>
  The state as \<open>migrateState\<close> returns it.  The todo mapping, the two id lists and the
  settings are rebuilt field by field; the sub-task mapping is the value of the blob's
  \<open>subTasks\<close> property, taken over with a type assertion that checks nothing at run time, so
  the field holds a JavaScript value.
\<close>

record LoadedState =
  loaded_todos :: "string \<rightharpoonup> Todo"
  loaded_subTasks :: jsval
  loaded_todoOrder :: "string list"
  loaded_collapsedTodoIds :: "string list"
  loaded_settings :: AppSettings
  loaded_schemaVersion :: int

text \<open>\<open>createInitialState()\<close> at that type: its sub-task mapping is the empty object.\<close>

definition initialLoadedState :: LoadedState where
  "initialLoadedState =
     \<lparr>loaded_todos = todos createInitialState,
      loaded_subTasks = JObj [],
      loaded_todoOrder = todoOrder createInitialState,
      loaded_collapsedTodoIds = collapsedTodoIds createInitialState,
      loaded_settings = settings createInitialState,
      loaded_schemaVersion = schemaVersion createInitialState\<rparr>"

definition isObject :: "jsval \<Rightarrow> bool" where
  "isObject value = (typeofObject value \<and> value \<noteq> JNull)"

text \<open>
  \<open>Object.entries\<close>: the entries of an object; an array has the entries of its indices,
  written in decimal.  The entries go into a mapping, so their order does not matter.
\<close>

fun decimalString :: "nat \<Rightarrow> string" where
  "decimalString n =
     (if n < 10 then [char_of (48 + n)]
      else decimalString (n div 10) @ [char_of (48 + n mod 10)])"

declare decimalString.simps [simp del]

fun objectEntries :: "jsval \<Rightarrow> (string \<times> jsval) list" where
  "objectEntries (JObj kvs) = kvs"
| "objectEntries (JArr xs) = zip (map decimalString [0..<length xs]) xs"
| "objectEntries _ = []"

text \<open>
  One step of the loop over the todo entries; \<open>now\<close> is the value of
  \<open>new Date().toISOString()\<close>.
\<close>

definition stringOr :: "jsval \<Rightarrow> string \<Rightarrow> string" where
  "stringOr v d = (case v of JStr s \<Rightarrow> s | _ \<Rightarrow> d)"

definition normalizeTodo :: "string \<Rightarrow> string \<times> jsval \<Rightarrow> (string \<rightharpoonup> Todo) \<Rightarrow> (string \<rightharpoonup> Todo)" where
  "normalizeTodo now entry normalizedTodos =
     (case entry of (i, value) \<Rightarrow>
        if \<not> isObject value then normalizedTodos
        else normalizedTodos(i \<mapsto>
          \<lparr>todo_id = stringOr (getProp value ''id'') i,
           todo_text = stringOr (getProp value ''text'') [],
           todo_priority = clampPriority (getProp value ''priority''),
           todo_completed = js_Boolean (getProp value ''completed''),
           todo_createdAt = stringOr (getProp value ''createdAt'') now,
           todo_subTaskIds = (case getProp value ''subTaskIds'' of
                                JArr xs \<Rightarrow> stringsOf xs
                              | _ \<Rightarrow> [])\<rparr>))"

definition migrateState :: "string \<Rightarrow> jsval \<Rightarrow> LoadedState" where
  "migrateState now raw =
     (if \<not> isObject raw then initialLoadedState
      else if getProp raw ''schemaVersion'' \<noteq> JNum (Finite (of_int APP_SCHEMA_VERSION))
      then initialLoadedState
      else
        let next0 = initialLoadedState;
            next1 = (if isObject (getProp raw ''todos'')
                     then next0\<lparr>loaded_todos :=
                            fold (normalizeTodo now) (objectEntries (getProp raw ''todos'')) Map.empty\<rparr>
                     else next0);
            next2 = (if isObject (getProp raw ''subTasks'')
                     then next1\<lparr>loaded_subTasks := getProp raw ''subTasks''\<rparr>
                     else next1);
            next3 = (case getProp raw ''todoOrder'' of
                       JArr xs \<Rightarrow> next2\<lparr>loaded_todoOrder := stringsOf xs\<rparr>
                     | _ \<Rightarrow> next2);
            next4 = (case getProp raw ''collapsedTodoIds'' of
                       JArr xs \<Rightarrow> next3\<lparr>loaded_collapsedTodoIds := stringsOf xs\<rparr>
                     | _ \<Rightarrow> next3);
            next5 = (if isObject (getProp raw ''settings'')
                     then
                       let key = getProp (getProp raw ''settings'') ''openaiApiKey'';
                           m = getProp (getProp raw ''settings'') ''model''
                       in next4\<lparr>loaded_settings :=
                            \<lparr>openaiApiKey = stringOr key [],
                             model = (case m of
                                        JStr s \<Rightarrow> if trim s \<noteq> [] then s else DEFAULT_MODEL
                                      | _ \<Rightarrow> DEFAULT_MODEL)\<rparr>\<rparr>
                     else next4)
        in next5\<lparr>loaded_schemaVersion := APP_SCHEMA_VERSION\<rparr>)"

text \<open>
  \<open>loadState\<close>: \<open>stored\<close> is what \<open>localStorage.getItem\<close> does (it throws, or returns \<open>null\<close>
  or a string) and \<open>parse\<close> is \<open>JSON.parse\<close>, which throws on a text that is not JSON.
\<close>

datatype 'a attempt = Throws | Returns 'a

definition loadState :: "string option attempt \<Rightarrow> (string \<Rightarrow> jsval attempt) \<Rightarrow> string \<Rightarrow> LoadedState" where
  "loadState stored parse now =
     (case stored of
        Throws \<Rightarrow> initialLoadedState
      | Returns None \<Rightarrow> initialLoadedState
      | Returns (Some raw) \<Rightarrow>
          if raw = [] then initialLoadedState
          else (case parse raw of
                  Throws \<Rightarrow> initialLoadedState
                | Returns value \<Rightarrow> migrateState now value))"

text \<open>
  A well-shaped \<open>SubTask\<close> record: an object whose \<open>id\<close>, \<open>parentId\<close>, \<open>text\<close> and \<open>createdAt\<close>
  are strings, whose \<open>completed\<close> is a boolean and whose \<open>source\<close> is \<open>ai\<close>; and a sub-task
  mapping that holds such records only.
\<close>

fun typeofBoolean :: "jsval \<Rightarrow> bool" where
  "typeofBoolean (JBool b) = True"
| "typeofBoolean _ = False"

definition isSubTaskRecord :: "jsval \<Rightarrow> bool" where
  "isSubTaskRecord v =
     (case v of
        JObj kvs \<Rightarrow>
          typeofString (getProp v ''id'') \<and> typeofString (getProp v ''parentId'')
          \<and> typeofString (getProp v ''text'') \<and> typeofBoolean (getProp v ''completed'')
          \<and> typeofString (getProp v ''createdAt'') \<and> getProp v ''source'' = JStr ''ai''
      | _ \<Rightarrow> False)"

definition isSubTaskMapping :: "jsval \<Rightarrow> bool" where
  "isSubTaskMapping v =
     (case v of JObj kvs \<Rightarrow> list_all (\<lambda>entry. isSubTaskRecord (snd entry)) kvs | _ \<Rightarrow> False)"

text \<open>
  The persisted blob \<open>{"schemaVersion": 1, "subTasks": {"s1": 42}}\<close> after \<open>JSON.parse\<close>.
\<close>

definition blobBadSubTask :: jsval where
  "blobBadSubTask =
     JObj [(''schemaVersion'', JNum (Finite 1)),
           (''subTasks'', JObj [(''s1'', JNum (Finite 42))])]"


section \<open>AI request and response protocol (openai.ts)\<close>

record GenerateSubTasksParams =
  gen_apiKey :: string
  gen_model :: string
  gen_parentTodoText :: string
  gen_existingSubTaskTexts :: "string list"

record TodoRef =
  ref_id :: string
  ref_text :: string

record RankTodosParams =
  rank_apiKey :: string
  rank_model :: string
  rank_todos :: "TodoRef list"

text \<open>
  \<open>RankTodosResult\<close>: \<open>result_priorities\<close> is the list of the entries of the result object, in the
  order in which the keys are added.
\<close>

record RankTodosResult =
  result_orderedIds :: "string list"
  result_priorities :: "(string \<times> int) list"

text \<open>
  The network.  A request carries the credential, the trimmed model name, the schema name and
  the data that the user prompt is built from; the fixed instruction texts and the JSON schema
  are constants of the source and are not part of the model.  \<open>fetch\<close> rejects (\<open>Inl\<close>) or
  resolves to a response, whose \<open>json()\<close> may throw.  An \<open>AppError\<close> is modelled by its code.
\<close>

record Request =
  req_apiKey :: string
  req_model :: string
  req_schemaName :: string
  req_userData :: "string list"

record HttpResponse =
  resp_ok :: bool
  resp_status :: nat
  resp_text :: "string attempt"
  resp_json :: "jsval attempt"

definition normalizeApiKey :: "string \<Rightarrow> failure + string" where
  "normalizeApiKey apiKey =
     (let normalized = trim apiKey in
      if normalized = [] then Inl (AppError MISSING_API_KEY) else Inr normalized)"

text \<open>\<open>toJsonText\<close>: the two loops return at the first text that is not blank.\<close>

fun firstContentText :: "jsval list \<Rightarrow> string option" where
  "firstContentText [] = None"
| "firstContentText (contentItem # rest) =
     (if js_Boolean contentItem \<and> typeofObject contentItem \<and> hasProperty ''text'' contentItem
         \<and> typeofString (getProp contentItem ''text'')
      then (case getProp contentItem ''text'' of
              JStr text \<Rightarrow> if trim text \<noteq> [] then Some text else firstContentText rest
            | _ \<Rightarrow> firstContentText rest)
      else firstContentText rest)"

fun firstOutputText :: "jsval list \<Rightarrow> string option" where
  "firstOutputText [] = None"
| "firstOutputText (outputItem # rest) =
     (if js_Boolean outputItem \<and> typeofObject outputItem \<and> hasProperty ''content'' outputItem
         \<and> Array_isArray (getProp outputItem ''content'')
      then (case getProp outputItem ''content'' of
              JArr content \<Rightarrow>
                (case firstContentText content of
                   Some text \<Rightarrow> Some text
                 | None \<Rightarrow> firstOutputText rest)
            | _ \<Rightarrow> firstOutputText rest)
      else firstOutputText rest)"

definition outputScan :: "jsval \<Rightarrow> failure + string" where
  "outputScan candidate =
     (case getProp candidate ''output'' of
        JArr output \<Rightarrow>
          (case firstOutputText output of
             Some text \<Rightarrow> Inr text
           | None \<Rightarrow> Inl (AppError INVALID_JSON))
      | _ \<Rightarrow> Inl (AppError INVALID_JSON))"

definition toJsonText :: "jsval \<Rightarrow> failure + string" where
  "toJsonText payload =
     (if \<not> js_Boolean payload \<or> \<not> typeofObject payload then Inl (AppError INVALID_JSON)
      else case getProp payload ''output_text'' of
             JStr output_text \<Rightarrow>
               if trim output_text \<noteq> [] then Inr output_text else outputScan payload
           | _ \<Rightarrow> outputScan payload)"

definition callResponsesApi :: "(Request \<Rightarrow> failure + HttpResponse) \<Rightarrow> Request \<Rightarrow> failure + jsval" where
  "callResponsesApi fetch request =
     (case fetch request of
        Inl e \<Rightarrow> Inl e
      | Inr response \<Rightarrow>
          if \<not> resp_ok response then Inl (AppError OPENAI_API_ERROR)
          else (case resp_json response of
                  Throws \<Rightarrow> Inl (AppError INVALID_JSON)
                | Returns payload \<Rightarrow> Inr payload))"

text \<open>The requests that the two operations hand to \<open>callResponsesApi\<close>.\<close>

definition generateRequest :: "string \<Rightarrow> GenerateSubTasksParams \<Rightarrow> string list \<Rightarrow> Request" where
  "generateRequest apiKey params existingTextSet =
     \<lparr>req_apiKey = apiKey, req_model = trim (gen_model params),
      req_schemaName = ''subtasks_response'',
      req_userData = gen_parentTodoText params # firstOccurrences existingTextSet\<rparr>"

definition rankRequest :: "string \<Rightarrow> RankTodosParams \<Rightarrow> Request" where
  "rankRequest apiKey params =
     \<lparr>req_apiKey = apiKey, req_model = trim (rank_model params),
      req_schemaName = ''todo_order_response'',
      req_userData = concat (map (\<lambda>todo. [ref_id todo, ref_text todo]) (rank_todos params))\<rparr>"

text \<open>
  \<open>JSON.parse(toJsonText(payload))\<close> inside \<open>try\<close>: whatever is thrown there is caught.
\<close>

definition parseModelJson :: "(string \<Rightarrow> jsval attempt) \<Rightarrow> jsval \<Rightarrow> jsval attempt" where
  "parseModelJson parse payload =
     (case toJsonText payload of Inl e \<Rightarrow> Throws | Inr text \<Rightarrow> parse text)"

text \<open>
  The loop of \<open>generateSubTasks\<close> over the decoded \<open>subtasks\<close> array, with the set \<open>seen\<close> and
  the list \<open>newResults\<close>.  \<open>item.text\<close> is read from whatever the array holds.
\<close>

fun collectSubTasks :: "string list \<Rightarrow> jsval list \<Rightarrow> string list \<Rightarrow> string list \<Rightarrow> failure + string list" where
  "collectSubTasks existingTextSet [] seen newResults = Inr newResults"
| "collectSubTasks existingTextSet (item # items) seen newResults =
     (case getOrThrow item ''text'' of
        Inl e \<Rightarrow> Inl e
      | Inr itemText \<Rightarrow>
          let text = (case itemText of JStr s \<Rightarrow> trim s | _ \<Rightarrow> []) in
          if text = [] then collectSubTasks existingTextSet items seen newResults
          else if text \<in> set existingTextSet \<or> text \<in> set seen
          then collectSubTasks existingTextSet items seen newResults
          else collectSubTasks existingTextSet items (text # seen) (newResults @ [text]))"

text \<open>
  \<open>generateSubTasks\<close> returns the requests it issued and its outcome; a result item
  \<open>{text}\<close> is its text.
\<close>

definition generateSubTasks ::
  "(Request \<Rightarrow> failure + HttpResponse) \<Rightarrow> (string \<Rightarrow> jsval attempt) \<Rightarrow> GenerateSubTasksParams \<Rightarrow>
   Request list \<times> (failure + string list)" where
  "generateSubTasks fetch parse params =
     (case normalizeApiKey (gen_apiKey params) of
        Inl e \<Rightarrow> ([], Inl e)
      | Inr apiKey \<Rightarrow>
          let existingTextSet =
                filter (\<lambda>text. text \<noteq> []) (map trim (gen_existingSubTaskTexts params));
              request = generateRequest apiKey params existingTextSet
          in (case callResponsesApi fetch request of
                Inl e \<Rightarrow> ([request], Inl e)
              | Inr payload \<Rightarrow>
                  ([request],
                   (case parseModelJson parse payload of
                      Throws \<Rightarrow> Inl (AppError INVALID_JSON)
                    | Returns modelJson \<Rightarrow>
                        (case getOrThrow modelJson ''subtasks'' of
                           Inl e \<Rightarrow> Inl e
                         | Inr (JArr subtasks) \<Rightarrow>
                             (case collectSubTasks existingTextSet subtasks [] [] of
                                Inl e \<Rightarrow> Inl e
                              | Inr newResults \<Rightarrow> Inr (take 4 newResults))
                         | Inr _ \<Rightarrow> Inl (AppError INVALID_JSON))))))"

text \<open>The loop of \<open>rankTodosByAi\<close> over the decoded \<open>ordered\<close> array.\<close>

fun collectRanks ::
  "string list \<Rightarrow> jsval list \<Rightarrow> string list \<Rightarrow> RankTodosResult \<Rightarrow> RankTodosResult" where
  "collectRanks inputIds [] seen acc = acc"
| "collectRanks inputIds (item # items) seen acc =
     (if \<not> js_Boolean item \<or> \<not> typeofObject item \<or> \<not> typeofString (getProp item ''id'')
      then collectRanks inputIds items seen acc
      else (case getProp item ''id'' of
              JStr itemId \<Rightarrow>
                if itemId \<notin> set inputIds \<or> itemId \<in> set seen
                then collectRanks inputIds items seen acc
                else collectRanks inputIds items (itemId # seen)
                       \<lparr>result_orderedIds = result_orderedIds acc @ [itemId],
                        result_priorities = result_priorities acc
                          @ [(itemId, clampRankPriority (getProp item ''priority''))]\<rparr>
            | _ \<Rightarrow> collectRanks inputIds items seen acc))"

definition rankTodosByAi ::
  "(Request \<Rightarrow> failure + HttpResponse) \<Rightarrow> (string \<Rightarrow> jsval attempt) \<Rightarrow> RankTodosParams \<Rightarrow>
   Request list \<times> (failure + RankTodosResult)" where
  "rankTodosByAi fetch parse params =
     (case normalizeApiKey (rank_apiKey params) of
        Inl e \<Rightarrow> ([], Inl e)
      | Inr apiKey \<Rightarrow>
          if length (rank_todos params) \<le> 1 then
            ([], Inr \<lparr>result_orderedIds = map ref_id (rank_todos params),
                      result_priorities = (case rank_todos params of
                                      [] \<Rightarrow> []
                                    | single # rest \<Rightarrow> [(ref_id single, 3)])\<rparr>)
          else
            let request = rankRequest apiKey params
            in (case callResponsesApi fetch request of
                  Inl e \<Rightarrow> ([request], Inl e)
                | Inr payload \<Rightarrow>
                    ([request],
                     (case parseModelJson parse payload of
                        Throws \<Rightarrow> Inl (AppError INVALID_JSON)
                      | Returns modelJson \<Rightarrow>
                          (case getOrThrow modelJson ''ordered'' of
                             Inl e \<Rightarrow> Inl e
                           | Inr (JArr ordered) \<Rightarrow>
                               Inr (collectRanks (map ref_id (rank_todos params)) ordered []
                                      \<lparr>result_orderedIds = [], result_priorities = []\<rparr>)
                           | Inr _ \<Rightarrow> Inl (AppError INVALID_JSON))))))"



definition itemText :: "jsval \<Rightarrow> string" where
  "itemText item = (case getProp item ''text'' of JStr s \<Rightarrow> trim s | _ \<Rightarrow> [])"

text \<open>Example traffic: a response that is \<open>ok\<close> and whose body is the given envelope.\<close>

definition okResponse :: "jsval \<Rightarrow> Request \<Rightarrow> failure + HttpResponse" where
  "okResponse envelope request =
     Inr \<lparr>resp_ok = True, resp_status = 200, resp_text = Returns [], resp_json = Returns envelope\<rparr>"

definition textEnvelope :: jsval where
  "textEnvelope = JObj [(''output_text'', JStr ''model output'')]"

definition exampleSubtasksJson :: jsval where
  "exampleSubtasksJson =
     JObj [(''subtasks'', JArr [JObj [(''text'', JStr ''buy milk'')],
                               JObj [(''text'', JStr ''call mom'')],
                               JObj [(''text'', JStr ''call mom'')]])]"

definition nullSubtasksJson :: jsval where
  "nullSubtasksJson =
     JObj [(''subtasks'', JArr [JNull, JObj [(''text'', JStr ''call mom'')]])]"

definition exampleOrderedJson :: jsval where
  "exampleOrderedJson =
     JObj [(''ordered'', JArr [JObj [(''id'', JStr ''b''), (''priority'', JNum (Finite 1))],
                              JObj [(''id'', JStr ''zz''), (''priority'', JNum (Finite 2))],
                              JObj [(''id'', JStr ''a''), (''priority'', JNum (Finite 9))],
                              JObj [(''id'', JStr ''b''), (''priority'', JNum (Finite 4))]])]"

definition exampleGenerateParams :: GenerateSubTasksParams where
  "exampleGenerateParams =
     \<lparr>gen_apiKey = ''sk-test'', gen_model = ''gpt-4.1-mini'', gen_parentTodoText = ''errands'',
      gen_existingSubTaskTexts = [''buy milk'']\<rparr>"

definition exampleRankParams :: "string \<Rightarrow> TodoRef list \<Rightarrow> RankTodosParams" where
  "exampleRankParams apiKey todoRefs =
     \<lparr>rank_apiKey = apiKey, rank_model = ''gpt-4.1-mini'', rank_todos = todoRefs\<rparr>"

definition todoA :: TodoRef where
  "todoA = \<lparr>ref_id = ''a'', ref_text = ''write report''\<rparr>"

definition todoB :: TodoRef where
  "todoB = \<lparr>ref_id = ''b'', ref_text = ''buy milk''\<rparr>"


section \<open>Facts about the array helpers\<close>

lemma indexOf_absent: "x \<notin> set xs \<Longrightarrow> indexOf xs x = -1"
  by (induction xs) (auto simp: Let_def)

lemma indexOf_present:
  "x \<in> set xs \<Longrightarrow> 0 \<le> indexOf xs x \<and> nat (indexOf xs x) < length xs \<and> xs ! nat (indexOf xs x) = x
     \<and> x \<notin> set (take (nat (indexOf xs x)) xs)"
proof (induction xs)
  case Nil then show ?case by simp
next
  case (Cons y ys)
  show ?case
  proof (cases "y = x")
    case True then show ?thesis by simp
  next
    case False
    with Cons.prems have "x \<in> set ys" by simp
    from Cons.IH[OF this] False show ?thesis
      by (auto simp: Let_def nat_add_distrib)
  qed
qed

lemma indexOf_neg_iff: "indexOf xs x < 0 \<longleftrightarrow> x \<notin> set xs"
  using indexOf_absent[of x xs] indexOf_present[of x xs] by auto



lemma set_firstOccurrences [simp]: "set (firstOccurrences xs) = set xs"
  by (induction xs) auto

lemma distinct_firstOccurrences [simp]: "distinct (firstOccurrences xs)"
  by (induction xs) auto




section \<open>The operations keep the invariants\<close>








lemma rel_option_refl_same [simp]: "(\<And>x. R x x) \<Longrightarrow> rel_option R m m"
  by (cases m) auto








lemma sub_id_newSubTask [simp]: "sub_id (newSubTask tid newId createdAt item) = newId (snd item)"
  and sub_parentId_newSubTask [simp]: "sub_parentId (newSubTask tid newId createdAt item) = tid"
  by (cases item; simp add: newSubTask_def)+























lemma length_spliceRemove: "i < length xs \<Longrightarrow> length (spliceRemove i xs) = length xs - 1"
  by (auto simp: spliceRemove_def)

lemma spliceRemove_spliceInsert: "i \<le> length xs \<Longrightarrow> spliceRemove i (spliceInsert i x xs) = xs"
  by (simp add: spliceRemove_def spliceInsert_def min_def)

lemma nth_spliceInsert: "i \<le> length xs \<Longrightarrow> spliceInsert i x xs ! i = x"
  by (simp add: spliceInsert_def nth_append)

lemma moveTodoToIndex_noop:
  "tid \<notin> set (todoOrder s) \<or> n < 0 \<or> n > int (length (todoOrder s)) \<Longrightarrow> moveTodoToIndex tid n s = s"
  using indexOf_neg_iff[of "todoOrder s" tid] by (auto simp: moveTodoToIndex_def Let_def)

lemma moveTodoToIndex_moves:
  assumes "tid \<in> set (todoOrder s)" "0 \<le> n" "n \<le> int (length (todoOrder s))"
  shows "moveTodoToIndex tid n s =
           s\<lparr>todoOrder :=
               spliceInsert (nat (if indexOf (todoOrder s) tid < n then n - 1 else n)) tid
                 (spliceRemove (nat (indexOf (todoOrder s) tid)) (todoOrder s))\<rparr>"
  using assms indexOf_neg_iff[of "todoOrder s" tid] by (auto simp: moveTodoToIndex_def Let_def)





text \<open>
  Where every todo is stored under its own \<open>id\<close>, identifying a todo by its key and
  identifying it by its \<open>id\<close> field give the same invariants.
\<close>

lemma listedInvariants_readings_agree:
  assumes "keyedById s"
  shows "listedInvariantsById s \<longleftrightarrow> listedInvariants s"
proof -
  have k: "\<And>k todo. todos s k = Some todo \<Longrightarrow> todo_id todo = k"
    using assms unfolding keyedById_def by blast
  have a: "subTaskIdsInvariantById s \<longleftrightarrow> subTaskIdsInvariant s"
    unfolding subTaskIdsInvariantById_def subTaskIdsInvariant_def
    using k by (intro iffI allI impI; elim conjE) fastforce+
  have b: "noOrphansById s \<longleftrightarrow> noOrphans s"
    unfolding noOrphansById_def noOrphans_def
    using k by (intro iffI allI impI) fastforce+
  show ?thesis by (simp add: listedInvariantsById_def listedInvariants_def a b)
qed

section \<open>Facts about the example states\<close>



lemma todoOrder_stateABC: "todoOrder stateABC = [''A'', ''B'', ''C'']"
  by (simp add: stateABC_def createTodo_def toggleTodoCompleted_def createInitialState_def Let_def isChecked_def isUnchecked_def)























section \<open>Facts about the priority clamps\<close>


lemma clampPriority_not_integer:
  "\<not> Number_isInteger (js_Number v) \<Longrightarrow> clampPriority v = 0"
  by (simp add: clampPriority_def)

lemma clampPriority_integer:
  assumes "js_Number v = Finite q" "of_int \<lfloor>q\<rfloor> = q"
  shows "clampPriority v = (if q \<le> 0 then 0 else if 5 \<le> q then 5 else \<lfloor>q\<rfloor>)"
proof -
  define n where "n = \<lfloor>q\<rfloor>"
  have qn: "q = of_int n" unfolding n_def by (rule assms(2)[symmetric])
  show ?thesis
    unfolding clampPriority_def assms(1) qn
    by (auto simp: Let_def Number_isInteger_def num_ge_def integerOf_def)
qed

lemma clampPriority_range: "0 \<le> clampPriority v \<and> clampPriority v \<le> 5"
proof (cases "Number_isInteger (js_Number v)")
  case False
  then show ?thesis by (simp add: clampPriority_not_integer)
next
  case True
  then obtain q where q: "js_Number v = Finite q" "of_int \<lfloor>q\<rfloor> = q"
    by (cases "js_Number v") (auto simp: Number_isInteger_def)
  have "q < 5 \<Longrightarrow> \<lfloor>q\<rfloor> \<le> 5" "0 < q \<Longrightarrow> 0 \<le> \<lfloor>q\<rfloor>" by linarith+
  then show ?thesis unfolding clampPriority_integer[OF q] by auto
qed






section \<open>Facts about the persistence adapter\<close>

text \<open>
  \<open>loadState\<close> returns the initial state when reading or parsing fails, when the parsed value
  is not an object, and when its \<open>schemaVersion\<close> is not the number 1.  On a version match the
  todo mapping holds normalized entries of object-shaped values only, with clamped priorities,
  and the two id lists keep the strings of the blob's arrays.
\<close>

lemma loadState_resets:
  "stored = Throws \<or> stored = Returns None \<or> stored = Returns (Some [])
   \<or> (stored = Returns (Some raw)
       \<and> (parse raw = Throws
          \<or> (parse raw = Returns v
              \<and> (\<not> isObject v \<or> getProp v ''schemaVersion'' \<noteq> JNum (Finite 1)))))
   \<Longrightarrow> loadState stored parse now = initialLoadedState"
  by (auto simp: loadState_def migrateState_def APP_SCHEMA_VERSION_def)

lemma fold_normalizeTodo_inv:
  assumes "\<And>k t. m k = Some t \<Longrightarrow> P k t"
    and "\<And>i v. (i, v) \<in> set es \<Longrightarrow> isObject v \<Longrightarrow>
           P i \<lparr>todo_id = stringOr (getProp v ''id'') i,
                 todo_text = stringOr (getProp v ''text'') [],
                 todo_priority = clampPriority (getProp v ''priority''),
                 todo_completed = js_Boolean (getProp v ''completed''),
                 todo_createdAt = stringOr (getProp v ''createdAt'') now,
                 todo_subTaskIds = (case getProp v ''subTaskIds'' of
                                      JArr xs \<Rightarrow> stringsOf xs
                                    | _ \<Rightarrow> [])\<rparr>"
    and "fold (normalizeTodo now) es m k = Some t"
  shows "P k t"
  using assms
proof (induction es arbitrary: m)
  case Nil
  then show ?case by simp
next
  case (Cons e es)
  obtain i v where e: "e = (i, v)" by (cases e)
  show ?case
  proof (rule Cons.IH[of "normalizeTodo now e m"])
    fix k' t' assume "normalizeTodo now e m k' = Some t'"
    then show "P k' t'"
      using Cons.prems(1)[of k' t'] Cons.prems(2)[of i v]
      by (auto simp: normalizeTodo_def e split: if_splits)
  next
    fix i' v' assume "(i', v') \<in> set es" "isObject v'"
    then show "P i' \<lparr>todo_id = stringOr (getProp v' ''id'') i',
                 todo_text = stringOr (getProp v' ''text'') [],
                 todo_priority = clampPriority (getProp v' ''priority''),
                 todo_completed = js_Boolean (getProp v' ''completed''),
                 todo_createdAt = stringOr (getProp v' ''createdAt'') now,
                 todo_subTaskIds = (case getProp v' ''subTaskIds'' of
                                      JArr xs \<Rightarrow> stringsOf xs
                                    | _ \<Rightarrow> [])\<rparr>"
      using Cons.prems(2)[of i' v'] by simp
  next
    show "fold (normalizeTodo now) es (normalizeTodo now e m) k = Some t"
      using Cons.prems(3) by simp
  qed
qed

lemma migrateState_fields:
  assumes "isObject raw" "getProp raw ''schemaVersion'' = JNum (Finite 1)"
  shows "loaded_todos (migrateState now raw) =
           (if isObject (getProp raw ''todos'')
            then fold (normalizeTodo now) (objectEntries (getProp raw ''todos'')) Map.empty
            else Map.empty)"
    and "loaded_subTasks (migrateState now raw) =
           (if isObject (getProp raw ''subTasks'') then getProp raw ''subTasks'' else JObj [])"
    and "loaded_todoOrder (migrateState now raw) =
           (case getProp raw ''todoOrder'' of JArr xs \<Rightarrow> stringsOf xs | _ \<Rightarrow> [])"
    and "loaded_collapsedTodoIds (migrateState now raw) =
           (case getProp raw ''collapsedTodoIds'' of JArr xs \<Rightarrow> stringsOf xs | _ \<Rightarrow> [])"
    and "loaded_schemaVersion (migrateState now raw) = 1"
  using assms
  by (auto simp: migrateState_def APP_SCHEMA_VERSION_def Let_def initialLoadedState_def
        createInitialState_def split: jsval.splits)

lemma migrateState_todos_sanitized:
  assumes "isObject raw" "getProp raw ''schemaVersion'' = JNum (Finite 1)"
    and "loaded_todos (migrateState now raw) k = Some t"
  shows "0 \<le> todo_priority t \<and> todo_priority t \<le> 5
         \<and> (\<exists>v. (k, v) \<in> set (objectEntries (getProp raw ''todos'')) \<and> isObject v)"
proof (cases "isObject (getProp raw ''todos'')")
  case False
  then show ?thesis using assms by (simp add: migrateState_fields)
next
  case True
  have f: "fold (normalizeTodo now) (objectEntries (getProp raw ''todos'')) Map.empty k = Some t"
    using assms True by (simp add: migrateState_fields)
  show ?thesis
    by (rule fold_normalizeTodo_inv[where P = "\<lambda>k t. 0 \<le> todo_priority t \<and> todo_priority t \<le> 5
         \<and> (\<exists>v. (k, v) \<in> set (objectEntries (getProp raw ''todos'')) \<and> isObject v)", OF _ _ f])
       (auto simp: clampPriority_range)
qed



section \<open>Facts about the AI protocol\<close>

lemma trim_empty_iff: "trim s = [] \<longleftrightarrow> list_all isWhiteSpace s"
proof
  assume "trim s = []"
  then have a: "\<forall>x \<in> set (dropWhile isWhiteSpace s). isWhiteSpace x"
    by (simp add: trim_def dropWhile_eq_Nil_conv)
  have "dropWhile isWhiteSpace s = []"
  proof (rule ccontr)
    assume n: "dropWhile isWhiteSpace s \<noteq> []"
    then have "\<not> isWhiteSpace (hd (dropWhile isWhiteSpace s))" by (rule hd_dropWhile)
    moreover have "hd (dropWhile isWhiteSpace s) \<in> set (dropWhile isWhiteSpace s)"
      using n by simp
    ultimately show False using a by blast
  qed
  then show "list_all isWhiteSpace s" by (simp add: dropWhile_eq_Nil_conv list_all_iff)
next
  assume "list_all isWhiteSpace s"
  then have "\<forall>x \<in> set s. isWhiteSpace x" by (simp add: list_all_iff)
  then have d: "dropWhile isWhiteSpace s = []" by (simp only: dropWhile_eq_Nil_conv)
  show "trim s = []" unfolding trim_def d by simp
qed



lemma filter_filter_neq_seen:
  "i \<in> set seen \<Longrightarrow> filter (\<lambda>x. x \<noteq> i \<and> x \<notin> set seen) xs = filter (\<lambda>j. j \<notin> set seen) xs"
  by (induction xs) auto







lemma getProp_JArr_getOrThrow: "getProp v k = JArr xs \<Longrightarrow> getOrThrow v k = Inr (JArr xs)"
  by (cases v) auto

lemma normalizeApiKey_ok: "trim apiKey \<noteq> [] \<Longrightarrow> normalizeApiKey apiKey = Inr (trim apiKey)"
  by (simp add: normalizeApiKey_def)






lemma toJsonText_textEnvelope: "toJsonText textEnvelope = Inr ''model output''"
  by (simp add: toJsonText_def textEnvelope_def trim_def isWhiteSpace_def)

lemma callResponsesApi_okResponse: "callResponsesApi (okResponse envelope) request = Inr envelope"
  by (simp add: callResponsesApi_def okResponse_def)

lemma parseModelJson_textEnvelope: "parseModelJson (\<lambda>text. Returns v) textEnvelope = Returns v"
  by (simp add: parseModelJson_def toJsonText_textEnvelope)

lemma trim_sk_test: "trim ''sk-test'' = ''sk-test''"
  by (simp add: trim_def isWhiteSpace_def)




lemma getOrThrow_text: "item \<noteq> JNull \<Longrightarrow> item \<noteq> JUndefined \<Longrightarrow>
  getOrThrow item ''text'' = Inr (getProp item ''text'')"
  by (cases item) auto

lemma collectSubTasks_total:
  assumes "\<forall>item \<in> set items. item \<noteq> JNull \<and> item \<noteq> JUndefined"
  shows "collectSubTasks existing items seen newResults =
           Inr (newResults
                @ filter (\<lambda>t. t \<notin> set seen)
                    (firstOccurrences
                       (filter (\<lambda>t. t \<noteq> [] \<and> t \<notin> set existing) (map itemText items))))"
  using assms
proof (induction items arbitrary: seen newResults)
  case Nil
  then show ?case by simp
next
  case (Cons item items)
  then have g: "getOrThrow item ''text'' = Inr (getProp item ''text'')"
    by (simp add: getOrThrow_text)
  have t: "(case getProp item ''text'' of JStr s \<Rightarrow> trim s | _ \<Rightarrow> []) = itemText item"
    by (simp add: itemText_def)
  have ih: "collectSubTasks existing items seen' res' =
           Inr (res'
                @ filter (\<lambda>t. t \<notin> set seen')
                    (firstOccurrences
                       (filter (\<lambda>t. t \<noteq> [] \<and> t \<notin> set existing) (map itemText items))))"
    for seen' res'
    using Cons.prems by (intro Cons.IH) simp
  have f: "filter (\<lambda>j. j \<notin> set (i # seen)) xs
             = filter (\<lambda>x. x \<noteq> i \<and> x \<notin> set seen) xs" for i xs
    by (induction xs) auto
  show ?case
  proof (cases "itemText item = [] \<or> itemText item \<in> set existing")
    case True
    then show ?thesis by (auto simp: g t ih Let_def)
  next
    case False
    show ?thesis
    proof (cases "itemText item \<in> set seen")
      case True
      with False show ?thesis by (simp add: g t ih Let_def filter_filter_neq_seen)
    next
      case n: False
      with False show ?thesis by (simp add: g t ih Let_def f)
    qed
  qed
qed

lemma collectSubTasks_throws:
  assumes "item \<in> set items" "item = JNull \<or> item = JUndefined"
  shows "collectSubTasks existing items seen newResults = Inl TypeError"
  using assms
proof (induction items arbitrary: seen newResults)
  case Nil
  then show ?case by simp
next
  case (Cons x items)
  show ?case
  proof (cases "x = JNull \<or> x = JUndefined")
    case True
    then show ?thesis by auto
  next
    case False
    then have g: "getOrThrow x ''text'' = Inr (getProp x ''text'')"
      by (simp add: getOrThrow_text)
    from False Cons.prems have "item \<in> set items" by auto
    from Cons.IH[OF this Cons.prems(2)] show ?thesis
      by (simp add: g Let_def)
  qed
qed

lemma generateSubTasks_decodes:
  assumes "trim (gen_apiKey params) \<noteq> []"
    and "callResponsesApi fetch
           (generateRequest (trim (gen_apiKey params)) params
              (filter (\<lambda>text. text \<noteq> []) (map trim (gen_existingSubTaskTexts params)))) = Inr payload"
    and "parseModelJson parse payload = Returns modelJson"
    and "getProp modelJson ''subtasks'' = JArr subtasks"
  shows "generateSubTasks fetch parse params =
           ([generateRequest (trim (gen_apiKey params)) params
               (filter (\<lambda>text. text \<noteq> []) (map trim (gen_existingSubTaskTexts params)))],
            (case collectSubTasks
                    (filter (\<lambda>text. text \<noteq> []) (map trim (gen_existingSubTaskTexts params)))
                    subtasks [] [] of
               Inl e \<Rightarrow> Inl e
             | Inr newResults \<Rightarrow> Inr (take 4 newResults)))"
  using assms(1)
  by (simp add: generateSubTasks_def normalizeApiKey_ok Let_def assms(2,3)
        getProp_JArr_getOrThrow[OF assms(4)])


text \<open>
  \<open>generateSubTasks\<close> on a decoded \<open>subtasks\<close> array: when no entry is \<open>null\<close> or \<open>undefined\<close>,
  the result is the list of the trimmed texts that are not empty and not an existing trimmed
  text, each text's first occurrence only, cut to four items; when an entry is \<open>null\<close>, the
  call throws a \<open>TypeError\<close>.
\<close>

lemma generateSubTasks_sanitizes:
  assumes "trim (gen_apiKey params) \<noteq> []"
    and "callResponsesApi fetch
           (generateRequest (trim (gen_apiKey params)) params
              (filter (\<lambda>text. text \<noteq> []) (map trim (gen_existingSubTaskTexts params)))) = Inr payload"
    and "parseModelJson parse payload = Returns modelJson"
    and "getProp modelJson ''subtasks'' = JArr subtasks"
    and "\<forall>item \<in> set subtasks. item \<noteq> JNull \<and> item \<noteq> JUndefined"
  shows "snd (generateSubTasks fetch parse params) =
           Inr (take 4
                  (firstOccurrences
                     (filter (\<lambda>t. t \<noteq> [] \<and> t \<notin> set (map trim (gen_existingSubTaskTexts params)))
                        (map itemText subtasks))))"
proof -
  have "filter (\<lambda>t. t \<noteq> [] \<and> t \<notin> set (filter (\<lambda>text. text \<noteq> []) (map trim (gen_existingSubTaskTexts params))))
          (map itemText subtasks)
        = filter (\<lambda>t. t \<noteq> [] \<and> t \<notin> set (map trim (gen_existingSubTaskTexts params)))
          (map itemText subtasks)"
    by (rule filter_cong) auto
  then show ?thesis
    unfolding generateSubTasks_decodes[OF assms(1-4)] collectSubTasks_total[OF assms(5)]
    by simp
qed

lemma generateSubTasks_null_throws:
  assumes "trim (gen_apiKey params) \<noteq> []"
    and "callResponsesApi fetch
           (generateRequest (trim (gen_apiKey params)) params
              (filter (\<lambda>text. text \<noteq> []) (map trim (gen_existingSubTaskTexts params)))) = Inr payload"
    and "parseModelJson parse payload = Returns modelJson"
    and "getProp modelJson ''subtasks'' = JArr subtasks"
    and "JNull \<in> set subtasks"
  shows "snd (generateSubTasks fetch parse params) = Inl TypeError"
  unfolding generateSubTasks_decodes[OF assms(1-4)]
  using collectSubTasks_throws[OF assms(5), of _ "[]" "[]"] by simp



section \<open>Claims about the state engine\<close>

subsection \<open>C1: the operations keep the invariants\<close>







subsection \<open>C2: toggleTodoCompleted\<close>





subsection \<open>C3: reorderTodos\<close>







subsection \<open>C7: moveTodoToIndex\<close>

text \<open>
  Claim C7.  For every state, \<open>moveTodoToIndex todoId targetIndex\<close> returns the state unchanged
  when the todo is not in \<open>todoOrder\<close>, when \<open>targetIndex\<close> is negative, or when it exceeds
  the length of \<open>todoOrder\<close>.  Otherwise it removes the todo from its position \<open>fromIndex\<close>
  (its first occurrence) and inserts it into the list after removal at \<open>targetIndex - 1\<close> when
  \<open>fromIndex < targetIndex\<close>, and at \<open>targetIndex\<close> otherwise; every other field is kept.
  With the order \<open>[A, B, C]\<close>, moving \<open>A\<close> to index 2 gives \<open>[B, A, C]\<close>.
\<close>

theorem moveTodoToIndex_reinserts:
  "(draggedTodoId \<notin> set (todoOrder s) \<or> nextIndex < 0 \<or> int (length (todoOrder s)) < nextIndex
      \<longrightarrow> moveTodoToIndex draggedTodoId nextIndex s = s)
   \<and> (draggedTodoId \<in> set (todoOrder s) \<and> 0 \<le> nextIndex \<and> nextIndex \<le> int (length (todoOrder s))
      \<longrightarrow> (\<exists>fromIndex removed effective.
             fromIndex < length (todoOrder s)
           \<and> todoOrder s ! fromIndex = draggedTodoId
           \<and> draggedTodoId \<notin> set (take fromIndex (todoOrder s))
           \<and> removed = take fromIndex (todoOrder s) @ drop (Suc fromIndex) (todoOrder s)
           \<and> int effective = (if int fromIndex < nextIndex then nextIndex - 1 else nextIndex)
           \<and> effective \<le> length removed
           \<and> moveTodoToIndex draggedTodoId nextIndex s
               = s\<lparr>todoOrder := take effective removed @ draggedTodoId # drop effective removed\<rparr>))
   \<and> (todoOrder s = [''A'', ''B'', ''C'']
      \<longrightarrow> todoOrder (moveTodoToIndex ''A'' 2 s) = [''B'', ''A'', ''C''])"
proof (intro conjI impI)
  assume "draggedTodoId \<notin> set (todoOrder s) \<or> nextIndex < 0 \<or> int (length (todoOrder s)) < nextIndex"
  then show "moveTodoToIndex draggedTodoId nextIndex s = s"
    by (intro moveTodoToIndex_noop) auto
next
  assume a: "draggedTodoId \<in> set (todoOrder s) \<and> 0 \<le> nextIndex \<and> nextIndex \<le> int (length (todoOrder s))"
  let ?from = "nat (indexOf (todoOrder s) draggedTodoId)"
  let ?removed = "take ?from (todoOrder s) @ drop (Suc ?from) (todoOrder s)"
  let ?eff = "nat (if indexOf (todoOrder s) draggedTodoId < nextIndex then nextIndex - 1 else nextIndex)"
  from a indexOf_present[of draggedTodoId "todoOrder s"]
  have p: "0 \<le> indexOf (todoOrder s) draggedTodoId" "?from < length (todoOrder s)"
    "todoOrder s ! ?from = draggedTodoId" "draggedTodoId \<notin> set (take ?from (todoOrder s))"
    by auto
  have len: "length ?removed = length (todoOrder s) - 1" using p(2) by auto
  have e1: "int ?eff = (if int ?from < nextIndex then nextIndex - 1 else nextIndex)"
    using p(1) a by auto
  have e2: "?eff \<le> length ?removed"
    unfolding len using p(1,2) a by (auto split: if_splits)
  have m: "moveTodoToIndex draggedTodoId nextIndex s
             = s\<lparr>todoOrder := take ?eff ?removed @ draggedTodoId # drop ?eff ?removed\<rparr>"
    using a by (simp add: moveTodoToIndex_moves spliceInsert_def spliceRemove_def)
  show "\<exists>fromIndex removed effective.
             fromIndex < length (todoOrder s)
           \<and> todoOrder s ! fromIndex = draggedTodoId
           \<and> draggedTodoId \<notin> set (take fromIndex (todoOrder s))
           \<and> removed = take fromIndex (todoOrder s) @ drop (Suc fromIndex) (todoOrder s)
           \<and> int effective = (if int fromIndex < nextIndex then nextIndex - 1 else nextIndex)
           \<and> effective \<le> length removed
           \<and> moveTodoToIndex draggedTodoId nextIndex s
               = s\<lparr>todoOrder := take effective removed @ draggedTodoId # drop effective removed\<rparr>"
    using p(2,3,4) e1 e2 m by blast
next
  assume "todoOrder s = [''A'', ''B'', ''C'']"
  then show "todoOrder (moveTodoToIndex ''A'' 2 s) = [''B'', ''A'', ''C'']"
    by (simp add: moveTodoToIndex_def Let_def spliceInsert_def spliceRemove_def)
qed


text \<open>The theorem at the state \<open>stateABC\<close>, whose order is \<open>[A, B, C]\<close>.\<close>

theorem moveTodoToIndex_reinserts_witness:
  "todoOrder stateABC = [''A'', ''B'', ''C'']
   \<and> todoOrder (moveTodoToIndex ''A'' 2 stateABC) = [''B'', ''A'', ''C'']
   \<and> moveTodoToIndex ''Z'' 2 stateABC = stateABC
   \<and> moveTodoToIndex ''A'' 4 stateABC = stateABC
   \<and> moveTodoToIndex ''A'' (-1) stateABC = stateABC
   \<and> moveTodoToIndex ''A'' 3 stateABC = stateABC\<lparr>todoOrder := [''B'', ''C'', ''A'']\<rparr>"
proof -
  note o = todoOrder_stateABC
  have 1: "todoOrder (moveTodoToIndex ''A'' 2 stateABC) = [''B'', ''A'', ''C'']"
    using moveTodoToIndex_reinserts[of "''A''" stateABC 2] o by simp
  have 2: "moveTodoToIndex ''Z'' 2 stateABC = stateABC"
    using moveTodoToIndex_reinserts[of "''Z''" stateABC 2] o by simp
  have 3: "moveTodoToIndex ''A'' 4 stateABC = stateABC"
    using moveTodoToIndex_reinserts[of "''A''" stateABC 4] o by simp
  have 4: "moveTodoToIndex ''A'' (-1) stateABC = stateABC"
    using moveTodoToIndex_reinserts[of "''A''" stateABC "-1"] o by simp
  have 5: "moveTodoToIndex ''A'' 3 stateABC = stateABC\<lparr>todoOrder := [''B'', ''C'', ''A'']\<rparr>"
    by (simp add: moveTodoToIndex_def Let_def spliceInsert_def spliceRemove_def o)
  from o 1 2 3 4 5 show ?thesis by simp
qed


subsection \<open>C9: operations on an id that does not exist\<close>







section \<open>Claims about the domain model and the persistence adapter\<close>

subsection \<open>C8: clampPriority and the rank clamp\<close>







subsection \<open>C4: loading a persisted blob\<close>

text \<open>
  Claim C4 says that on a version match the sub-task mapping of the result holds well-shaped
  \<open>SubTask\<close> records only.  \<open>migrateState\<close> normalizes every todo entry but takes the blob's
  \<open>subTasks\<close> object over as it is: for the blob \<open>{"schemaVersion": 1, "subTasks": {"s1": 42}}\<close>
  the loaded sub-task mapping is \<open>{"s1": 42}\<close>.
\<close>

theorem migrateState_keeps_raw_subTasks:
  "isObject blobBadSubTask
   \<and> getProp blobBadSubTask ''schemaVersion'' = JNum (Finite 1)
   \<and> loaded_subTasks (migrateState now blobBadSubTask) = JObj [(''s1'', JNum (Finite 42))]
   \<and> \<not> isSubTaskMapping (loaded_subTasks (migrateState now blobBadSubTask))
   \<and> loaded_subTasks (loadState (Returns (Some ''blob'')) (\<lambda>text. Returns blobBadSubTask) now)
       = JObj [(''s1'', JNum (Finite 42))]"
proof -
  have o: "isObject blobBadSubTask" by (simp add: blobBadSubTask_def isObject_def)
  have v: "getProp blobBadSubTask ''schemaVersion'' = JNum (Finite 1)"
    by (simp add: blobBadSubTask_def)
  have s: "loaded_subTasks (migrateState now blobBadSubTask) = JObj [(''s1'', JNum (Finite 42))]"
    unfolding migrateState_fields(2)[OF o v] by (simp add: blobBadSubTask_def isObject_def)
  have n: "\<not> isSubTaskMapping (JObj [(''s1'', JNum (Finite 42))])"
    by (simp add: isSubTaskMapping_def isSubTaskRecord_def)
  show ?thesis using o v s n by (simp add: loadState_def)
qed


section \<open>Claims about the AI protocol\<close>

subsection \<open>C10: the credential check comes first\<close>

text \<open>
  Claim C10.  In \<open>generateSubTasks\<close> and in \<open>rankTodosByAi\<close>, when the \<open>apiKey\<close> is empty or
  consists of white space only, the call throws the \<open>AppError\<close> with the code
  \<open>MISSING_API_KEY\<close>, for every other input, every network and every parser, and issues no
  request.  In particular \<open>rankTodosByAi\<close> throws for no todo and for one todo: the check
  precedes the shortcut.
\<close>

theorem credential_check_first:
  "(list_all isWhiteSpace (gen_apiKey generateParams) \<longrightarrow>
      generateSubTasks fetch parse generateParams = ([], Inl (AppError MISSING_API_KEY)))
   \<and> (list_all isWhiteSpace (rank_apiKey rankParams) \<longrightarrow>
      rankTodosByAi fetch parse rankParams = ([], Inl (AppError MISSING_API_KEY)))"
  by (simp add: generateSubTasks_def rankTodosByAi_def normalizeApiKey_def trim_empty_iff)


text \<open>
  The theorem at the empty key and at the key of a space, a tab and a line feed, for no todo,
  one todo and two todos.
\<close>

theorem credential_check_first_witness:
  "list_all isWhiteSpace []
   \<and> list_all isWhiteSpace [CHR '' '', CHR 0x09, CHR 0x0A]
   \<and> generateSubTasks (okResponse textEnvelope) (\<lambda>text. Returns exampleSubtasksJson)
        (exampleGenerateParams\<lparr>gen_apiKey := [CHR '' '', CHR 0x09, CHR 0x0A]\<rparr>)
       = ([], Inl (AppError MISSING_API_KEY))
   \<and> rankTodosByAi (okResponse textEnvelope) (\<lambda>text. Returns exampleOrderedJson)
        (exampleRankParams [] []) = ([], Inl (AppError MISSING_API_KEY))
   \<and> rankTodosByAi (okResponse textEnvelope) (\<lambda>text. Returns exampleOrderedJson)
        (exampleRankParams [CHR '' '', CHR 0x09, CHR 0x0A] [todoA]) = ([], Inl (AppError MISSING_API_KEY))
   \<and> rankTodosByAi (okResponse textEnvelope) (\<lambda>text. Returns exampleOrderedJson)
        (exampleRankParams [] [todoA, todoB]) = ([], Inl (AppError MISSING_API_KEY))"
proof -
  have w: "list_all isWhiteSpace []" "list_all isWhiteSpace [CHR '' '', CHR 0x09, CHR 0x0A]"
    by (simp_all add: isWhiteSpace_def)
  have 1: "generateSubTasks (okResponse textEnvelope) (\<lambda>text. Returns exampleSubtasksJson)
        (exampleGenerateParams\<lparr>gen_apiKey := [CHR '' '', CHR 0x09, CHR 0x0A]\<rparr>)
       = ([], Inl (AppError MISSING_API_KEY))"
    using credential_check_first[where generateParams =
            "exampleGenerateParams\<lparr>gen_apiKey := [CHR '' '', CHR 0x09, CHR 0x0A]\<rparr>"] w
    by simp
  have 2: "rankTodosByAi (okResponse textEnvelope) (\<lambda>text. Returns exampleOrderedJson)
        (exampleRankParams [] []) = ([], Inl (AppError MISSING_API_KEY))"
    using credential_check_first[where rankParams = "exampleRankParams [] []"] w
    by (simp add: exampleRankParams_def)
  have 3: "rankTodosByAi (okResponse textEnvelope) (\<lambda>text. Returns exampleOrderedJson)
        (exampleRankParams [CHR '' '', CHR 0x09, CHR 0x0A] [todoA]) = ([], Inl (AppError MISSING_API_KEY))"
    using credential_check_first[where rankParams =
            "exampleRankParams [CHR '' '', CHR 0x09, CHR 0x0A] [todoA]"] w
    by (simp add: exampleRankParams_def)
  have 4: "rankTodosByAi (okResponse textEnvelope) (\<lambda>text. Returns exampleOrderedJson)
        (exampleRankParams [] [todoA, todoB]) = ([], Inl (AppError MISSING_API_KEY))"
    using credential_check_first[where rankParams = "exampleRankParams [] [todoA, todoB]"] w
    by (simp add: exampleRankParams_def)
  from w 1 2 3 4 show ?thesis by simp
qed


subsection \<open>C5: rankTodosByAi\<close>







subsection \<open>C6: generateSubTasks\<close>

text \<open>
  Claim C6 says that for every decoded \<open>subtasks\<close> array \<open>generateSubTasks\<close> returns the
  sanitized list.  The loop reads \<open>item.text\<close> without testing \<open>item\<close>, unlike the loop of
  \<open>rankTodosByAi\<close>: for the decoded array \<open>[null, {"text": "call mom"}]\<close> the call does not
  return \<open>[call mom]\<close> but throws a \<open>TypeError\<close>.  On the claim's own example, the existing
  text \<open>buy milk\<close> and the decoded texts \<open>buy milk\<close>, \<open>call mom\<close>, \<open>call mom\<close>, the result is
  \<open>[call mom]\<close>.
\<close>

theorem generateSubTasks_null_entry:
  "generateSubTasks (okResponse textEnvelope) (\<lambda>text. Returns nullSubtasksJson) exampleGenerateParams
     = ([generateRequest ''sk-test'' exampleGenerateParams [''buy milk'']], Inl TypeError)
   \<and> generateSubTasks (okResponse textEnvelope) (\<lambda>text. Returns exampleSubtasksJson) exampleGenerateParams
     = ([generateRequest ''sk-test'' exampleGenerateParams [''buy milk'']], Inr [''call mom''])"
proof -
  have k: "trim (gen_apiKey exampleGenerateParams) \<noteq> []"
    "trim (gen_apiKey exampleGenerateParams) = ''sk-test''"
    by (simp_all add: exampleGenerateParams_def trim_sk_test)
  have e: "filter (\<lambda>text. text \<noteq> []) (map trim (gen_existingSubTaskTexts exampleGenerateParams))
             = [''buy milk'']"
    by (simp add: exampleGenerateParams_def trim_def isWhiteSpace_def)
  have g1: "getProp nullSubtasksJson ''subtasks'' = JArr [JNull, JObj [(''text'', JStr ''call mom'')]]"
    by (simp add: nullSubtasksJson_def)
  have g2: "getProp exampleSubtasksJson ''subtasks'' =
              JArr [JObj [(''text'', JStr ''buy milk'')], JObj [(''text'', JStr ''call mom'')],
                    JObj [(''text'', JStr ''call mom'')]]"
    by (simp add: exampleSubtasksJson_def)
  have c1: "collectSubTasks [''buy milk''] [JNull, JObj [(''text'', JStr ''call mom'')]] [] []
              = Inl TypeError"
    by simp
  have c2: "collectSubTasks [''buy milk'']
              [JObj [(''text'', JStr ''buy milk'')], JObj [(''text'', JStr ''call mom'')],
               JObj [(''text'', JStr ''call mom'')]] [] [] = Inr [''call mom'']"
    by (simp add: trim_def isWhiteSpace_def)
  note d1 = generateSubTasks_decodes[OF k(1) callResponsesApi_okResponse
              parseModelJson_textEnvelope g1, unfolded k(2) e c1]
  note d2 = generateSubTasks_decodes[OF k(1) callResponsesApi_okResponse
              parseModelJson_textEnvelope g2, unfolded k(2) e c2]
  from d1 d2 show ?thesis by simp
qed


end
